theory Spec2Isabelle
  imports Main
begin

section \<open>The OrderItem hooks of \<^verbatim>\<open>schema.ts\<close>\<close>

text \<open>
  The two lifecycle hooks of the \<^verbatim>\<open>OrderItem\<close> list (\<^verbatim>\<open>resolveInput\<close>, lines 303-350, and
  \<^verbatim>\<open>afterOperation\<close>, lines 352-367) are embedded as HOL functions. The hooks are
  \<^verbatim>\<open>async\<close>: their outcome is a resolved value or a rejection, modelled as \<open>error + 'a\<close>,
  next to the context they leave behind (the store and the console).

  Numbers: the fields are Keystone \<^verbatim>\<open>integer\<close> fields (32-bit GraphQL integers held in
  JavaScript numbers), modelled as \<open>int\<close>. JavaScript's \<^verbatim>\<open>*\<close> and \<^verbatim>\<open>+\<close> compute in IEEE 754
  doubles: the exact result is rounded to 53 significant bits, so it is the integer result
  only below \<open>2^53\<close> in magnitude. The rounding is part of the model (\<open>js_mul\<close>, \<open>js_add\<close>).
\<close>

subsection \<open>Data\<close>

text \<open>A field of the loosely typed bag \<^verbatim>\<open>data: any\<close>.\<close>

datatype jsval = JUndefined | JNull | JNum int | JStr string

text \<open>
  A to-one relationship input (\<^verbatim>\<open>data.product\<close>, \<^verbatim>\<open>data.order\<close>): absent, \<^verbatim>\<open>null\<close>, or an
  object, of which the hooks read \<^verbatim>\<open>?.connect?.id\<close> only (\<open>None\<close> when the object has no
  \<^verbatim>\<open>connect.id\<close>, as for \<^verbatim>\<open>{ disconnect: true }\<close> or \<^verbatim>\<open>{ create: ... }\<close>).
\<close>

datatype relate_to_one = Rel_undefined | Rel_null | Rel_input "string option"

text \<open>\<^verbatim>\<open>resolvedData\<close> and its copy \<^verbatim>\<open>data\<close>: the fields of the write.\<close>

record item_data =
  order_rel :: relate_to_one
  product_rel :: relate_to_one
  productNameSnapshot :: jsval
  unitPriceCents :: jsval
  quantity :: jsval
  lineTotalCents :: jsval

text \<open>
  A stored OrderItem row (\<^verbatim>\<open>item\<close>, \<^verbatim>\<open>originalItem\<close>, the elements of \<^verbatim>\<open>findMany\<close>). The
  numeric columns are optional here because the hooks guard them (\<^verbatim>\<open>?? 1\<close>, \<^verbatim>\<open>?? 0\<close>,
  \<^verbatim>\<open>|| 0\<close>); the schema declares them \<^verbatim>\<open>isRequired\<close>.
\<close>

record order_item =
  item_id :: string
  orderId :: "string option"
  productId :: "string option"
  item_productNameSnapshot :: string
  item_unitPriceCents :: "int option"
  item_quantity :: "int option"
  item_lineTotalCents :: "int option"

text \<open>A Product row, with the two columns the resolver reads (lines 84-102).\<close>

record product =
  name :: string
  priceCents :: int

datatype order_status = Pending | Paid | Cancelled

text \<open>An Order row (lines 156-223).\<close>

record order_row =
  userId :: "string option"
  status :: order_status
  currencyCode :: string
  totalCents :: int

datatype operation = Create | Update | Delete

datatype error = NotFound | ValidationError | StoreUnavailable

subsection \<open>The context: store and console\<close>

datatype db_call = Product_findOne | OrderItem_findMany | Order_updateOne

text \<open>What the hooks write to the console (lines 329, 331, 337, 342, 365).\<close>

datatype log_entry =
    Log_resolveInput operation item_data "order_item option"
  | Log_need bool bool
  | Log_fetched product
  | Warn_fetch_failed error
  | Error_recalc_failed error

record store =
  products :: "string \<rightharpoonup> product"
  orderItems :: "order_item list"
  orders :: "string \<rightharpoonup> order_row"

text \<open>
  \<open>fault\<close> says which calls of \<^verbatim>\<open>context.db\<close> throw, and what: the store's failures
  (unavailable, timed out) are outside the hooks' control.
\<close>

record hook_context =
  db :: store
  fault :: "db_call \<Rightarrow> error option"
  console :: "log_entry list"

definition console_log :: "log_entry \<Rightarrow> hook_context \<Rightarrow> hook_context" where
  "console_log e ctx = ctx\<lparr>console := console ctx @ [e]\<rparr>"

text \<open>
  The data-access capability \<^verbatim>\<open>context.db\<close> belongs to the framework; \<^verbatim>\<open>schema.ts\<close> only
  calls it. Its three calls are modelled on the store above, each throwing what \<open>fault\<close>
  says.
\<close>

text \<open>
  Modelled from the spec: \<^verbatim>\<open>context.db.Product.findOne\<close>, which is not part of \<^verbatim>\<open>schema.ts\<close>
  (section 6: \<^verbatim>\<open>findProduct(id) -> {name, priceCents} | not-found | error\<close>). An unknown id
  is answered by \<^verbatim>\<open>null\<close> (\<open>None\<close>), which line 336 tests.
\<close>

definition db_Product_findOne :: "string \<Rightarrow> hook_context \<Rightarrow> error + product option" where
  "db_Product_findOne pid ctx =
     (case fault ctx Product_findOne of
        Some e \<Rightarrow> Inl e
      | None \<Rightarrow> Inr (products (db ctx) pid))"

text \<open>
  Modelled from the spec: \<^verbatim>\<open>context.db.OrderItem.findMany\<close>, which is not part of
  \<^verbatim>\<open>schema.ts\<close> (section 6: \<^verbatim>\<open>listOrderItems(orderId) -> sequence of {lineTotalCents}\<close>),
  with the filter of lines 359-361: the items whose order is \<^verbatim>\<open>orderId\<close>.
\<close>

definition db_OrderItem_findMany :: "string \<Rightarrow> hook_context \<Rightarrow> error + order_item list" where
  "db_OrderItem_findMany oid ctx =
     (case fault ctx OrderItem_findMany of
        Some e \<Rightarrow> Inl e
      | None \<Rightarrow> Inr (filter (\<lambda>oi. orderId oi = Some oid) (orderItems (db ctx))))"

text \<open>
  Modelled from the spec: \<^verbatim>\<open>context.db.Order.updateOne\<close>, which is not part of \<^verbatim>\<open>schema.ts\<close>
  (section 6: \<^verbatim>\<open>updateOrder(orderId, {totalCents}) -> success | error\<close>; section 7:
  \<^verbatim>\<open>NotFound\<close> for a missing Order). It writes \<^verbatim>\<open>totalCents\<close> and nothing else.
\<close>

definition db_Order_updateOne :: "string \<Rightarrow> int \<Rightarrow> hook_context \<Rightarrow> error + hook_context" where
  "db_Order_updateOne oid newTotal ctx =
     (case fault ctx Order_updateOne of
        Some e \<Rightarrow> Inl e
      | None \<Rightarrow>
          (case orders (db ctx) oid of
             None \<Rightarrow> Inl NotFound
           | Some row \<Rightarrow>
               Inr (ctx\<lparr>db := (db ctx)\<lparr>orders := (orders (db ctx))(oid \<mapsto> row\<lparr>totalCents := newTotal\<rparr>)\<rparr>\<rparr>)))"

subsection \<open>JavaScript arithmetic and tests used by the hooks\<close>

text \<open>
  The spacing of the doubles around a natural number \<open>n\<close>: 1 below \<open>2^53\<close>, doubling with
  each further bit.
\<close>

fun ulp :: "nat \<Rightarrow> nat" where
  "ulp n = (if n < 2 ^ 53 then 1 else 2 * ulp (n div 2))"

declare ulp.simps [simp del]

text \<open>The double nearest to \<open>n\<close>, a tie going to the even significand (IEEE 754 default).\<close>

definition round53 :: "nat \<Rightarrow> nat" where
  "round53 n =
     (let m = ulp n; q = n div m; r = n mod m
      in if m < 2 * r \<or> (2 * r = m \<and> odd q) then (q + 1) * m else q * m)"

text \<open>
  The JavaScript number that an exact integer result becomes. The operands of the hooks
  are 32-bit integers, so results stay far below the largest double and never become
  \<^verbatim>\<open>Infinity\<close>.
\<close>

definition js_number :: "int \<Rightarrow> int" where
  "js_number x = (if x < 0 then - int (round53 (nat (- x))) else int (round53 (nat x)))"

text \<open>\<^verbatim>\<open>a * b\<close> (line 348) and \<^verbatim>\<open>a + b\<close> (line 362) on numbers that hold integers.\<close>

definition js_mul :: "int \<Rightarrow> int \<Rightarrow> int" where
  "js_mul a b = js_number (a * b)"

definition js_add :: "int \<Rightarrow> int \<Rightarrow> int" where
  "js_add a b = js_number (a + b)"

text \<open>\<^verbatim>\<open>typeof v === 'number'\<close>\<close>

definition typeof_number :: "jsval \<Rightarrow> bool" where
  "typeof_number v = (case v of JNum _ \<Rightarrow> True | _ \<Rightarrow> False)"

text \<open>Truthiness of an optional string: \<^verbatim>\<open>undefined\<close>, \<^verbatim>\<open>null\<close> and \<^verbatim>\<open>''\<close> are falsy.\<close>

definition truthy_id :: "string option \<Rightarrow> bool" where
  "truthy_id s = (case s of None \<Rightarrow> False | Some x \<Rightarrow> x \<noteq> [])"

text \<open>\<^verbatim>\<open>r?.connect?.id\<close>\<close>

definition connect_id :: "relate_to_one \<Rightarrow> string option" where
  "connect_id r = (case r of Rel_input c \<Rightarrow> c | _ \<Rightarrow> None)"

text \<open>Truthiness of a relationship input: any object is truthy.\<close>

definition truthy_rel :: "relate_to_one \<Rightarrow> bool" where
  "truthy_rel r = (case r of Rel_input _ \<Rightarrow> True | _ \<Rightarrow> False)"

text \<open>\<^verbatim>\<open>n || 0\<close> on a nullable number.\<close>

definition or_zero :: "int option \<Rightarrow> int" where
  "or_zero v = (case v of None \<Rightarrow> 0 | Some n \<Rightarrow> if n = 0 then 0 else n)"

subsection \<open>\<^verbatim>\<open>resolveInput\<close>\<close>

text \<open>Lines 308-313: \<^verbatim>\<open>item?.quantity ?? 1\<close> unless \<^verbatim>\<open>data.quantity\<close> is a number.\<close>

definition resolveQuantity :: "item_data \<Rightarrow> order_item option \<Rightarrow> int" where
  "resolveQuantity data item =
     (if typeof_number (quantity data) then (case quantity data of JNum n \<Rightarrow> n | _ \<Rightarrow> 0)
      else (case Option.bind item item_quantity of Some q \<Rightarrow> q | None \<Rightarrow> 1))"

text \<open>Lines 316-324.\<close>

definition resolveProductId :: "operation \<Rightarrow> item_data \<Rightarrow> order_item option \<Rightarrow> string option" where
  "resolveProductId operation data item =
     (if truthy_id (connect_id (product_rel data)) then connect_id (product_rel data)
      else if operation = Update \<and> \<not> truthy_rel (product_rel data)
              \<and> truthy_id (Option.bind item productId)
        then Option.bind item productId
      else None)"

text \<open>Line 330.\<close>

definition needName :: "item_data \<Rightarrow> bool" where
  "needName data =
     (productNameSnapshot data = JUndefined \<or> productNameSnapshot data = JNull
      \<or> productNameSnapshot data = JStr [])"

text \<open>Line 332.\<close>

definition needPrice :: "item_data \<Rightarrow> bool" where
  "needPrice data = (unitPriceCents data = JUndefined)"

text \<open>Lines 338-339, for a fetched product.\<close>

definition populate :: "product \<Rightarrow> item_data \<Rightarrow> item_data" where
  "populate p data =
     (let d1 = (if needName data then data\<lparr>productNameSnapshot := JStr (name p)\<rparr> else data)
      in if needPrice data then d1\<lparr>unitPriceCents := JNum (priceCents p)\<rparr> else d1)"

text \<open>Lines 333-344: the guarded fetch inside \<^verbatim>\<open>try\<close>/\<^verbatim>\<open>catch\<close>.\<close>

definition fetch_snapshot :: "string option \<Rightarrow> item_data \<Rightarrow> hook_context \<Rightarrow> item_data \<times> hook_context" where
  "fetch_snapshot pid data ctx =
     (if truthy_id pid \<and> (needName data \<or> needPrice data) then
        (case db_Product_findOne (the pid) ctx of
           Inl e \<Rightarrow> (data, console_log (Warn_fetch_failed e) ctx)
         | Inr None \<Rightarrow> (data, ctx)
         | Inr (Some p) \<Rightarrow> (populate p data, console_log (Log_fetched p) ctx))
      else (data, ctx))"

text \<open>Line 347.\<close>

definition resolveUnitPrice :: "item_data \<Rightarrow> order_item option \<Rightarrow> int" where
  "resolveUnitPrice data item =
     (if typeof_number (unitPriceCents data) then (case unitPriceCents data of JNum n \<Rightarrow> n | _ \<Rightarrow> 0)
      else (case Option.bind item item_unitPriceCents of Some u \<Rightarrow> u | None \<Rightarrow> 0))"

text \<open>Lines 303-350.\<close>

definition resolveInput ::
  "operation \<Rightarrow> item_data \<Rightarrow> order_item option \<Rightarrow> hook_context \<Rightarrow> (error + item_data) \<times> hook_context" where
  "resolveInput operation resolvedData item ctx =
     (let data = resolvedData;
          pid = resolveProductId operation data item;
          ctx1 = console_log (Log_resolveInput operation data item) ctx;
          ctx2 = console_log (Log_need (needName data) (needPrice data)) ctx1;
          (data', ctx3) = fetch_snapshot pid data ctx2;
          q = resolveQuantity data' item;
          unitPrice = resolveUnitPrice data' item
      in (Inr (data'\<lparr>lineTotalCents := JNum (js_mul q unitPrice)\<rparr>), ctx3))"

subsection \<open>\<^verbatim>\<open>afterOperation\<close>\<close>

text \<open>Line 354: \<^verbatim>\<open>item || originalItem\<close>.\<close>

definition effectiveItem :: "order_item option \<Rightarrow> order_item option \<Rightarrow> order_item option" where
  "effectiveItem item originalItem = (case item of Some i \<Rightarrow> Some i | None \<Rightarrow> originalItem)"

text \<open>Line 362: the \<^verbatim>\<open>reduce\<close> from 0.\<close>

definition sum_lineTotals :: "order_item list \<Rightarrow> int" where
  "sum_lineTotals ois = foldl (\<lambda>sum oi. js_add sum (or_zero (item_lineTotalCents oi))) 0 ois"

text \<open>Lines 357-366: the recalculation inside \<^verbatim>\<open>try\<close>/\<^verbatim>\<open>catch\<close>, for a known order id.\<close>

definition recalcOrderTotal :: "string \<Rightarrow> hook_context \<Rightarrow> (error + unit) \<times> hook_context" where
  "recalcOrderTotal oid ctx =
     (case db_OrderItem_findMany oid ctx of
        Inl e \<Rightarrow> (Inr (), console_log (Error_recalc_failed e) ctx)
      | Inr ois \<Rightarrow>
          (case db_Order_updateOne oid (sum_lineTotals ois) ctx of
             Inl e \<Rightarrow> (Inr (), console_log (Error_recalc_failed e) ctx)
           | Inr ctx' \<Rightarrow> (Inr (), ctx')))"

text \<open>Lines 352-367.\<close>

definition afterOperation ::
  "operation \<Rightarrow> order_item option \<Rightarrow> order_item option \<Rightarrow> hook_context \<Rightarrow> (error + unit) \<times> hook_context" where
  "afterOperation operation item originalItem ctx =
     (let oid = Option.bind (effectiveItem item originalItem) orderId
      in if \<not> truthy_id oid then (Inr (), ctx)
         else recalcOrderTotal (the oid) ctx)"

subsection \<open>What the framework passes to the hooks\<close>

text \<open>
  Modelled from the spec: the arguments of the pre-commit hook, which the framework
  supplies (section 6: \<^verbatim>\<open>{operation: create|update, proposedFields, previousItem?}\<close>). On
  create there is no stored \<^verbatim>\<open>item\<close>; on update \<^verbatim>\<open>item\<close> is the stored row, whose \<^verbatim>\<open>quantity\<close>
  and \<^verbatim>\<open>unitPriceCents\<close> columns are \<^verbatim>\<open>isRequired\<close> (lines 273-286) and so not null.
\<close>

definition resolve_args_ok :: "operation \<Rightarrow> order_item option \<Rightarrow> bool" where
  "resolve_args_ok operation item =
     (case operation of
        Create \<Rightarrow> item = None
      | Update \<Rightarrow>
          (case item of
             None \<Rightarrow> False
           | Some it \<Rightarrow> item_quantity it \<noteq> None \<and> item_unitPriceCents it \<noteq> None)
      | Delete \<Rightarrow> False)"

text \<open>
  Modelled from the spec: the arguments of the post-commit hook, which the framework
  supplies (section 6: \<^verbatim>\<open>{operation: create|update|delete, resultingOrPriorItem}\<close>; line 353:
  for delete, \<^verbatim>\<open>item\<close> is undefined). \<^verbatim>\<open>item\<close> is the row after the write, absent on delete;
  \<^verbatim>\<open>originalItem\<close> the row before it, absent on create.
\<close>

definition after_args_ok :: "operation \<Rightarrow> order_item option \<Rightarrow> order_item option \<Rightarrow> bool" where
  "after_args_ok operation item originalItem =
     (case operation of
        Create \<Rightarrow> item \<noteq> None \<and> originalItem = None
      | Update \<Rightarrow> item \<noteq> None \<and> originalItem \<noteq> None
      | Delete \<Rightarrow> item = None \<and> originalItem \<noteq> None)"

subsection \<open>Field validation\<close>

text \<open>
  The framework validates the output of \<^verbatim>\<open>resolveInput\<close> against the \<^verbatim>\<open>validation\<close> options
  that the schema declares for each field, before the write is committed. The validator
  itself is not part of \<^verbatim>\<open>schema.ts\<close>.
\<close>

text \<open>
  Modelled from the spec: validation of an \<^verbatim>\<open>integer\<close> field with options \<^verbatim>\<open>isRequired\<close> and
  \<^verbatim>\<open>min\<close> (section 7: a \<^verbatim>\<open>ValidationError\<close> for a negative price, a zero or negative
  quantity or a missing required field). A field that an update does not mention keeps its
  stored value and is not checked.
\<close>

definition validate_integer :: "bool \<Rightarrow> int \<Rightarrow> operation \<Rightarrow> jsval \<Rightarrow> bool" where
  "validate_integer isRequired minimum operation v =
     (case v of
        JNum n \<Rightarrow> minimum \<le> n
      | JUndefined \<Rightarrow> operation = Update \<or> \<not> isRequired
      | JNull \<Rightarrow> \<not> isRequired
      | JStr _ \<Rightarrow> False)"

text \<open>
  Modelled from the spec: validation of a \<^verbatim>\<open>text\<close> field with option \<^verbatim>\<open>isRequired\<close>
  (section 7: a \<^verbatim>\<open>ValidationError\<close> for a missing required field).
\<close>

definition validate_text :: "bool \<Rightarrow> operation \<Rightarrow> jsval \<Rightarrow> bool" where
  "validate_text isRequired operation v =
     (case v of
        JStr s \<Rightarrow> \<not> isRequired \<or> s \<noteq> []
      | JUndefined \<Rightarrow> operation = Update \<or> \<not> isRequired
      | JNull \<Rightarrow> \<not> isRequired
      | JNum _ \<Rightarrow> False)"

text \<open>
  Modelled from the spec: validation of an OrderItem write (section 7: a \<^verbatim>\<open>ValidationError\<close>
  aborts the write), with the \<^verbatim>\<open>validation\<close> options that lines 264-296 declare:
  \<^verbatim>\<open>productNameSnapshot\<close> required, \<^verbatim>\<open>unitPriceCents\<close> required and at least 0, \<^verbatim>\<open>quantity\<close>
  required and at least 1, \<^verbatim>\<open>lineTotalCents\<close> required and at least 0.
\<close>

definition validateInput :: "operation \<Rightarrow> item_data \<Rightarrow> error + item_data" where
  "validateInput operation data =
     (if validate_text True operation (productNameSnapshot data)
         \<and> validate_integer True 0 operation (unitPriceCents data)
         \<and> validate_integer True 1 operation (quantity data)
         \<and> validate_integer True 0 operation (lineTotalCents data)
      then Inr data else Inl ValidationError)"

text \<open>
  Modelled from the spec: the pre-commit phase of a create or update (section 2: the
  resolver runs before the write; section 7: a \<^verbatim>\<open>ValidationError\<close> on the write is surfaced
  to the caller and aborts it), the resolver followed by validation.
\<close>

definition preCommit ::
  "operation \<Rightarrow> item_data \<Rightarrow> order_item option \<Rightarrow> hook_context \<Rightarrow> (error + item_data) \<times> hook_context" where
  "preCommit operation resolvedData item ctx =
     (case resolveInput operation resolvedData item ctx of
        (Inl e, ctx') \<Rightarrow> (Inl e, ctx')
      | (Inr data, ctx') \<Rightarrow> (validateInput operation data, ctx'))"

subsection \<open>Example records\<close>

text \<open>The empty write \<^verbatim>\<open>{}\<close>, from which the examples below set fields.\<close>

definition empty_data :: item_data where
  "empty_data = \<lparr>order_rel = Rel_undefined, product_rel = Rel_undefined,
     productNameSnapshot = JUndefined, unitPriceCents = JUndefined, quantity = JUndefined,
     lineTotalCents = JUndefined\<rparr>"

text \<open>A context on a store whose calls all succeed, with an empty console.\<close>

definition ctx_of :: "store \<Rightarrow> hook_context" where
  "ctx_of s = \<lparr>db = s, fault = (\<lambda>_. None), console = []\<rparr>"

definition widget :: product where
  "widget = \<lparr>name = ''Widget'', priceCents = 1999\<rparr>"

definition itemA :: order_item where
  "itemA = \<lparr>item_id = ''A'', orderId = Some ''O'', productId = None,
     item_productNameSnapshot = ''Gadget'', item_unitPriceCents = Some 500,
     item_quantity = Some 3, item_lineTotalCents = Some 1500\<rparr>"

definition itemB :: order_item where
  "itemB = \<lparr>item_id = ''B'', orderId = Some ''O'', productId = None,
     item_productNameSnapshot = ''Gizmo'', item_unitPriceCents = Some 1499,
     item_quantity = Some 2, item_lineTotalCents = Some 2998\<rparr>"

definition orderO :: order_row where
  "orderO = \<lparr>userId = Some ''u1'', status = Pending, currencyCode = ''USD'', totalCents = 0\<rparr>"

definition store_of :: "order_item list \<Rightarrow> store" where
  "store_of ois = \<lparr>products = [''p1'' \<mapsto> widget], orderItems = ois, orders = [''O'' \<mapsto> orderO]\<rparr>"

text \<open>
  An item that snapshots the product \<^verbatim>\<open>p1\<close> as bought (Widget, 1999), and a store in which
  that product has since been renamed and repriced.
\<close>

definition itemW :: order_item where
  "itemW = \<lparr>item_id = ''W'', orderId = Some ''O'', productId = Some ''p1'',
     item_productNameSnapshot = ''Widget'', item_unitPriceCents = Some 1999,
     item_quantity = Some 1, item_lineTotalCents = Some 1999\<rparr>"

definition repriced_store :: store where
  "repriced_store = \<lparr>products = [''p1'' \<mapsto> \<lparr>name = ''Widget Pro'', priceCents = 2500\<rparr>],
     orderItems = [itemW], orders = [''O'' \<mapsto> orderO\<lparr>totalCents := 1999\<rparr>]\<rparr>"

text \<open>A context in which one call of the store throws.\<close>

definition failing :: "db_call \<Rightarrow> error \<Rightarrow> hook_context \<Rightarrow> hook_context" where
  "failing call e ctx = ctx\<lparr>fault := (fault ctx)(call := Some e)\<rparr>"

section \<open>Properties of the hooks\<close>

subsection \<open>Auxiliary facts\<close>

lemma ulp_small: "n < 2 ^ 53 \<Longrightarrow> ulp n = 1"
  by (subst ulp.simps) simp

lemma ulp_double: "2 ^ 53 \<le> n \<Longrightarrow> ulp n = 2 * ulp (n div 2)"
  by (subst ulp.simps) simp

lemma round53_exact: "n < 2 ^ 53 \<Longrightarrow> round53 n = n"
  by (simp add: round53_def ulp_small)

lemma js_number_exact: "\<bar>x\<bar> < 2 ^ 53 \<Longrightarrow> js_number x = x"
proof (cases "x < 0")
  case True
  assume "\<bar>x\<bar> < 2 ^ 53"
  with True have "nat (- x) < 2 ^ 53"
    by (simp add: nat_less_iff)
  then show ?thesis
    using True by (simp add: js_number_def round53_exact)
next
  case False
  assume "\<bar>x\<bar> < 2 ^ 53"
  with False have "nat x < 2 ^ 53"
    by (simp add: nat_less_iff)
  then show ?thesis
    using False by (simp add: js_number_def round53_exact)
qed

lemma js_number_nonneg: "0 \<le> x \<Longrightarrow> 0 \<le> js_number x"
  by (simp add: js_number_def)

lemma js_mul_exact: "\<bar>a * b\<bar> < 2 ^ 53 \<Longrightarrow> js_mul a b = a * b"
  by (simp add: js_mul_def js_number_exact)

lemma js_add_exact: "\<bar>a + b\<bar> < 2 ^ 53 \<Longrightarrow> js_add a b = a + b"
  by (simp add: js_add_def js_number_exact)

lemma js_mul_zero [simp]: "js_mul a 0 = 0" "js_mul 0 b = 0"
  by (simp_all add: js_mul_def js_number_exact)

lemma js_mul_nonneg: "0 \<le> a \<Longrightarrow> 0 \<le> b \<Longrightarrow> 0 \<le> js_mul a b"
  by (simp add: js_mul_def js_number_nonneg)

text \<open>Above \<open>2^53\<close> the product is rounded: the square of the largest 32-bit integer.\<close>

lemma js_mul_rounds: "js_mul 2147483647 2147483647 = 4611686014132420608"
  by (simp add: js_mul_def js_number_def round53_def ulp_small ulp_double)

lemma foldl_js_add:
  "\<bar>a\<bar> + (\<Sum>x\<leftarrow>xs. \<bar>f x\<bar>) < 2 ^ 53 \<Longrightarrow>
     foldl (\<lambda>acc x. js_add acc (f x)) a xs = a + (\<Sum>x\<leftarrow>xs. f x)"
proof (induction xs arbitrary: a)
  case Nil
  then show ?case by simp
next
  case (Cons x xs)
  have "\<bar>a + f x\<bar> \<le> \<bar>a\<bar> + \<bar>f x\<bar>" by simp
  moreover have "0 \<le> (\<Sum>x\<leftarrow>xs. \<bar>f x\<bar>)"
    by (rule sum_list_nonneg) auto
  ultimately have small: "\<bar>a + f x\<bar> < 2 ^ 53"
    and rest: "\<bar>a + f x\<bar> + (\<Sum>x\<leftarrow>xs. \<bar>f x\<bar>) < 2 ^ 53"
    using Cons.prems by simp_all
  have "js_add a (f x) = a + f x"
    using small by (simp add: js_add_def js_number_exact)
  then show ?case
    using Cons.IH [OF rest] by (simp add: add.assoc)
qed

lemma or_zero_eq: "or_zero v = (case v of None \<Rightarrow> 0 | Some n \<Rightarrow> n)"
  by (simp add: or_zero_def split: option.splits)

lemma sum_lineTotals_sum_list:
  assumes "(\<Sum>oi\<leftarrow>ois. \<bar>case item_lineTotalCents oi of None \<Rightarrow> 0 | Some n \<Rightarrow> n\<bar>) < 2 ^ 53"
  shows "sum_lineTotals ois = (\<Sum>oi\<leftarrow>ois. case item_lineTotalCents oi of None \<Rightarrow> 0 | Some n \<Rightarrow> n)"
  using foldl_js_add [of 0 "\<lambda>oi. or_zero (item_lineTotalCents oi)" ois] assms
  by (simp add: sum_lineTotals_def or_zero_eq)

lemma resolveInput_eq:
  "resolveInput operation data item ctx =
     (Inr ((fst (fetch_snapshot (resolveProductId operation data item) data
               (console_log (Log_need (needName data) (needPrice data))
                  (console_log (Log_resolveInput operation data item) ctx))))
            \<lparr>lineTotalCents :=
               JNum (js_mul
                      (resolveQuantity (fst (fetch_snapshot (resolveProductId operation data item) data
                         (console_log (Log_need (needName data) (needPrice data))
                            (console_log (Log_resolveInput operation data item) ctx)))) item)
                      (resolveUnitPrice (fst (fetch_snapshot (resolveProductId operation data item) data
                         (console_log (Log_need (needName data) (needPrice data))
                            (console_log (Log_resolveInput operation data item) ctx)))) item))\<rparr>),
      snd (fetch_snapshot (resolveProductId operation data item) data
               (console_log (Log_need (needName data) (needPrice data))
                  (console_log (Log_resolveInput operation data item) ctx))))"
  by (simp add: resolveInput_def Let_def split: prod.splits)

lemma truthy_id_simps [simp]:
  "truthy_id None = False" "truthy_id (Some x) = (x \<noteq> [])"
  by (simp_all add: truthy_id_def)

lemma fetch_snapshot_fst:
  "fst (fetch_snapshot pid data ctx) =
     (if truthy_id pid \<and> (needName data \<or> needPrice data) then
        (case db_Product_findOne (the pid) ctx of
           Inr (Some p) \<Rightarrow> populate p data
         | _ \<Rightarrow> data)
      else data)"
  by (auto simp: fetch_snapshot_def split: sum.splits option.splits)

lemma populate_quantity [simp]: "quantity (populate p data) = quantity data"
  by (simp add: populate_def Let_def)

lemma fetch_snapshot_quantity:
  "quantity (fst (fetch_snapshot pid data ctx)) = quantity data"
  by (simp add: fetch_snapshot_fst split: sum.splits option.splits)

lemma resolveQuantity_fetch:
  "resolveQuantity (fst (fetch_snapshot pid data ctx)) item = resolveQuantity data item"
  by (simp add: resolveQuantity_def fetch_snapshot_quantity)

lemma findOne_console [simp]:
  "db_Product_findOne pid (console_log e ctx) = db_Product_findOne pid ctx"
  by (cases "fault ctx Product_findOne") (simp_all add: db_Product_findOne_def console_log_def)

lemma fetch_snapshot_fst_console [simp]:
  "fst (fetch_snapshot pid data (console_log e ctx)) = fst (fetch_snapshot pid data ctx)"
  by (auto simp: fetch_snapshot_fst)

lemma populate_lineTotal:
  "populate p (data\<lparr>lineTotalCents := v\<rparr>) = (populate p data)\<lparr>lineTotalCents := v\<rparr>"
  by (simp add: populate_def needName_def needPrice_def Let_def)

lemma fetch_snapshot_lineTotal_irrelevant:
  "fst (fetch_snapshot pid (data\<lparr>lineTotalCents := v\<rparr>) ctx) = (fst (fetch_snapshot pid data ctx))\<lparr>lineTotalCents := v\<rparr>"
  by (auto simp: fetch_snapshot_fst populate_lineTotal needName_def needPrice_def
      split: sum.splits option.splits)

lemma resolveUnitPrice_lineTotal [simp]:
  "resolveUnitPrice (d\<lparr>lineTotalCents := x\<rparr>) item = resolveUnitPrice d item"
  by (simp add: resolveUnitPrice_def)

lemma resolveQuantity_lineTotal [simp]:
  "resolveQuantity (d\<lparr>lineTotalCents := x\<rparr>) item = resolveQuantity d item"
  by (simp add: resolveQuantity_def)

lemma resolveProductId_lineTotal [simp]:
  "resolveProductId operation (d\<lparr>lineTotalCents := x\<rparr>) item = resolveProductId operation d item"
  by (simp add: resolveProductId_def)

lemma findMany_ok:
  "fault ctx OrderItem_findMany = None \<Longrightarrow>
     db_OrderItem_findMany oid ctx = Inr (filter (\<lambda>oi. orderId oi = Some oid) (orderItems (db ctx)))"
  by (simp add: db_OrderItem_findMany_def)

lemma updateOne_ok:
  "fault ctx Order_updateOne = None \<Longrightarrow> orders (db ctx) oid = Some row \<Longrightarrow>
     db_Order_updateOne oid t ctx =
       Inr (ctx\<lparr>db := (db ctx)\<lparr>orders := (orders (db ctx))(oid \<mapsto> row\<lparr>totalCents := t\<rparr>)\<rparr>\<rparr>)"
  by (simp add: db_Order_updateOne_def)

lemma afterOperation_resolved:
  "Option.bind (effectiveItem item originalItem) orderId = Some oid \<Longrightarrow> oid \<noteq> [] \<Longrightarrow>
     afterOperation operation item originalItem ctx = recalcOrderTotal oid ctx"
  by (simp add: afterOperation_def)

lemma resolveInput_fetch:
  assumes "fetch_snapshot (resolveProductId operation data item) data
             (console_log (Log_need (needName data) (needPrice data))
                (console_log (Log_resolveInput operation data item) ctx)) = (d, c)"
  shows "resolveInput operation data item ctx =
           (Inr (d\<lparr>lineTotalCents := JNum (js_mul (resolveQuantity d item) (resolveUnitPrice d item))\<rparr>), c)"
  using assms by (simp add: resolveInput_def)

lemma resolveProductId_truthy:
  "resolveProductId operation data item = Some pid \<Longrightarrow> pid \<noteq> []"
  by (auto simp: resolveProductId_def split: if_splits)

lemma preCommit_eq:
  "fst (preCommit operation data item ctx) =
     validateInput operation
       ((fst (fetch_snapshot (resolveProductId operation data item) data ctx))
          \<lparr>lineTotalCents :=
             JNum (js_mul (resolveQuantity data item)
                     (resolveUnitPrice (fst (fetch_snapshot (resolveProductId operation data item) data ctx)) item))\<rparr>)"
  by (simp add: preCommit_def resolveInput_eq resolveQuantity_fetch)

lemma validateInput_Inr:
  "validateInput operation d = Inr d' \<Longrightarrow> d' = d \<and> validate_integer True 1 operation (quantity d)"
  by (simp add: validateInput_def split: if_splits)

lemma resolveQuantity_cases:
  "resolveQuantity d item =
     (case quantity d of
        JNum n \<Rightarrow> n
      | _ \<Rightarrow> (case item of
               None \<Rightarrow> 1
             | Some it \<Rightarrow> (case item_quantity it of None \<Rightarrow> 1 | Some n \<Rightarrow> n)))"
  by (cases item) (simp_all add: resolveQuantity_def typeof_number_def split: jsval.splits)

lemma resolveUnitPrice_cases:
  "resolveUnitPrice d item =
     (case unitPriceCents d of
        JNum n \<Rightarrow> n
      | _ \<Rightarrow> (case item of
               None \<Rightarrow> 0
             | Some it \<Rightarrow> (case item_unitPriceCents it of None \<Rightarrow> 0 | Some n \<Rightarrow> n)))"
  by (cases item) (simp_all add: resolveUnitPrice_def typeof_number_def split: jsval.splits)

lemma fetch_snapshot_price_kept:
  "unitPriceCents data \<noteq> JUndefined \<Longrightarrow>
     unitPriceCents (fst (fetch_snapshot pid data ctx)) = unitPriceCents data"
  by (auto simp: fetch_snapshot_fst populate_def needPrice_def Let_def
      split: sum.splits option.splits)

lemma fetch_snapshot_price_source:
  "unitPriceCents (fst (fetch_snapshot pid data ctx)) = unitPriceCents data
   \<or> (\<exists>k p. pid = Some k \<and> products (db ctx) k = Some p
         \<and> unitPriceCents (fst (fetch_snapshot pid data ctx)) = JNum (priceCents p))"
  by (cases pid)
     (auto simp: fetch_snapshot_fst populate_def db_Product_findOne_def Let_def
        split: sum.splits option.splits)

lemma resolveProductId_source:
  "resolveProductId operation data item = Some k \<Longrightarrow>
     product_rel data = Rel_input (Some k)
     \<or> (operation = Update \<and> (\<exists>it. item = Some it \<and> productId it = Some k))"
  by (cases item; cases "product_rel data")
     (auto simp: resolveProductId_def connect_id_def split: if_splits)

lemma after_args_effectiveItem:
  "after_args_ok operation item originalItem \<Longrightarrow>
     Option.bind (effectiveItem item originalItem) orderId =
       (case operation of
          Delete \<Rightarrow> Option.bind originalItem orderId
        | _ \<Rightarrow> Option.bind item orderId)"
  by (cases operation) (auto simp: after_args_ok_def effectiveItem_def)

lemmas example_defs = empty_data_def ctx_of_def store_of_def widget_def itemA_def itemB_def
  orderO_def itemW_def repriced_store_def failing_def

subsection \<open>The effective quantity\<close>

text \<open>
  Claim C7. The effective quantity is the proposed quantity when the write holds one (a
  number); otherwise, on update, the quantity of the stored item; otherwise, on create, the
  default 1. With the arguments the framework passes, the default is taken on create only.
  Fetching the product snapshot does not change it.
\<close>

theorem resolveQuantity_effective:
  assumes "resolve_args_ok operation item"
  shows "(\<forall>n. quantity data = JNum n \<longrightarrow> resolveQuantity data item = n)
       \<and> (\<not> typeof_number (quantity data) \<and> operation = Update \<longrightarrow>
            (\<exists>it. item = Some it \<and> item_quantity it = Some (resolveQuantity data item)))
       \<and> (\<not> typeof_number (quantity data) \<and> operation = Create \<longrightarrow> resolveQuantity data item = 1)
       \<and> resolveQuantity (fst (fetch_snapshot pid data ctx)) item = resolveQuantity data item"
proof -
  have "(\<forall>n. quantity data = JNum n \<longrightarrow> resolveQuantity data item = n)
       \<and> (\<not> typeof_number (quantity data) \<and> operation = Update \<longrightarrow>
            (\<exists>it. item = Some it \<and> item_quantity it = Some (resolveQuantity data item)))
       \<and> (\<not> typeof_number (quantity data) \<and> operation = Create \<longrightarrow> resolveQuantity data item = 1)"
    using assms
    by (auto simp: resolveQuantity_def resolve_args_ok_def typeof_number_def
        split: jsval.splits operation.splits option.splits)
  then show ?thesis
    by (simp only: resolveQuantity_fetch simp_thms)
qed

theorem resolveQuantity_effective_witness:
  "resolve_args_ok Update (Some itemA) \<and> resolve_args_ok Create None
   \<and> resolveQuantity (empty_data\<lparr>quantity := JNum 5\<rparr>) (Some itemA) = 5
   \<and> resolveQuantity empty_data (Some itemA) = 3
   \<and> resolveQuantity empty_data None = 1"
proof -
  have u: "resolve_args_ok Update (Some itemA)"
    by (simp add: resolve_args_ok_def itemA_def)
  have c: "resolve_args_ok Create None"
    by (simp add: resolve_args_ok_def)
  show ?thesis
    using u c resolveQuantity_effective [OF u, of "empty_data\<lparr>quantity := JNum 5\<rparr>"] resolveQuantity_effective [OF u, of empty_data]
      resolveQuantity_effective [OF c, of empty_data]
    by (simp add: empty_data_def typeof_number_def itemA_def)
qed

subsection \<open>The line total\<close>

text \<open>
  Claim C2. The resolver always returns a record to persist. Its quantity is the one of the
  write; its unit price is the one of the write or, when the write has none, that of a
  Product of the store or still absent. The effective quantity is the quantity of the
  record, else the stored one, else 1; the effective unit price is the unit price of the
  record, else the stored one, else 0. \<^verbatim>\<open>lineTotalCents\<close> of the record is the JavaScript
  product of the two, which is their exact product whenever that is below \<open>2^53\<close> in
  magnitude. A \<^verbatim>\<open>lineTotalCents\<close> supplied by the client has no effect on the result. A
  write with \<^verbatim>\<open>unitPriceCents = 500\<close> and \<^verbatim>\<open>quantity = 3\<close> yields 1500.
\<close>

theorem resolveInput_lineTotal:
  "\<exists>data' ctx'. resolveInput operation data item ctx = (Inr data', ctx')
     \<and> quantity data' = quantity data
     \<and> (unitPriceCents data' = unitPriceCents data
          \<or> (unitPriceCents data = JUndefined
                \<and> (\<exists>k p. products (db ctx) k = Some p \<and> unitPriceCents data' = JNum (priceCents p)
                      \<and> (product_rel data = Rel_input (Some k)
                           \<or> (operation = Update \<and> (\<exists>it. item = Some it \<and> productId it = Some k))))))
     \<and> (\<forall>q u.
           q = (case quantity data' of
                  JNum n \<Rightarrow> n
                | _ \<Rightarrow> (case item of
                         None \<Rightarrow> 1
                       | Some it \<Rightarrow> (case item_quantity it of None \<Rightarrow> 1 | Some n \<Rightarrow> n)))
           \<and> u = (case unitPriceCents data' of
                    JNum n \<Rightarrow> n
                  | _ \<Rightarrow> (case item of
                           None \<Rightarrow> 0
                         | Some it \<Rightarrow> (case item_unitPriceCents it of None \<Rightarrow> 0 | Some n \<Rightarrow> n)))
           \<longrightarrow> lineTotalCents data' = JNum (js_mul q u)
               \<and> (\<bar>q * u\<bar> < 2 ^ 53 \<longrightarrow> lineTotalCents data' = JNum (q * u)))
     \<and> fst (resolveInput operation (data\<lparr>lineTotalCents := v\<rparr>) item ctx) = Inr data'
     \<and> (unitPriceCents data = JNum 500 \<and> quantity data = JNum 3 \<longrightarrow>
          lineTotalCents data' = JNum 1500)"
proof -
  define c where "c = console_log (Log_need (needName data) (needPrice data))
              (console_log (Log_resolveInput operation data item) ctx)"
  define d where "d = fst (fetch_snapshot (resolveProductId operation data item) data c)"
  define r where "r = d\<lparr>lineTotalCents := JNum (js_mul (resolveQuantity d item) (resolveUnitPrice d item))\<rparr>"
  have run: "resolveInput operation data item ctx =
      (Inr r, snd (fetch_snapshot (resolveProductId operation data item) data c))"
    unfolding r_def d_def c_def by (rule resolveInput_eq)
  have qd: "quantity d = quantity data"
    unfolding d_def by (rule fetch_snapshot_quantity)
  then have qr: "quantity r = quantity data"
    by (simp add: r_def)
  have dbc: "db c = db ctx"
    by (simp add: c_def console_log_def)
  have kept: "unitPriceCents data \<noteq> JUndefined \<longrightarrow> unitPriceCents d = unitPriceCents data"
    unfolding d_def by (simp add: fetch_snapshot_price_kept)
  have "unitPriceCents d = unitPriceCents data
      \<or> (\<exists>k p. resolveProductId operation data item = Some k \<and> products (db ctx) k = Some p
            \<and> unitPriceCents d = JNum (priceCents p))"
    unfolding d_def using fetch_snapshot_price_source [of _ data c] by (simp only: dbc)
  with kept have src: "unitPriceCents r = unitPriceCents data
      \<or> (unitPriceCents data = JUndefined
            \<and> (\<exists>k p. products (db ctx) k = Some p \<and> unitPriceCents r = JNum (priceCents p)
                  \<and> (product_rel data = Rel_input (Some k)
                       \<or> (operation = Update \<and> (\<exists>it. item = Some it \<and> productId it = Some k)))))"
    using resolveProductId_source [of operation data item]
    by (simp add: r_def) blast
  have lt: "lineTotalCents r = JNum (js_mul (resolveQuantity d item) (resolveUnitPrice d item))"
    by (simp add: r_def)
  have fields: "quantity r = quantity d" "unitPriceCents r = unitPriceCents d"
    by (simp_all add: r_def)
  have total: "\<forall>q u.
           q = (case quantity r of
                  JNum n \<Rightarrow> n
                | _ \<Rightarrow> (case item of
                         None \<Rightarrow> 1
                       | Some it \<Rightarrow> (case item_quantity it of None \<Rightarrow> 1 | Some n \<Rightarrow> n)))
           \<and> u = (case unitPriceCents r of
                    JNum n \<Rightarrow> n
                  | _ \<Rightarrow> (case item of
                           None \<Rightarrow> 0
                         | Some it \<Rightarrow> (case item_unitPriceCents it of None \<Rightarrow> 0 | Some n \<Rightarrow> n)))
           \<longrightarrow> lineTotalCents r = JNum (js_mul q u)
               \<and> (\<bar>q * u\<bar> < 2 ^ 53 \<longrightarrow> lineTotalCents r = JNum (q * u))"
    unfolding lt fields
    by (simp add: resolveQuantity_cases [symmetric] resolveUnitPrice_cases [symmetric] js_mul_exact)
  have d': "fst (fetch_snapshot (resolveProductId operation data item) (data\<lparr>lineTotalCents := v\<rparr>) ctx)
      = d\<lparr>lineTotalCents := v\<rparr>"
    unfolding d_def c_def
    by (simp add: fetch_snapshot_lineTotal_irrelevant)
  have over: "fst (resolveInput operation (data\<lparr>lineTotalCents := v\<rparr>) item ctx) = Inr r"
    by (simp add: resolveInput_eq d' r_def)
  have ex: "unitPriceCents data = JNum 500 \<and> quantity data = JNum 3 \<longrightarrow> lineTotalCents r = JNum 1500"
  proof
    assume a: "unitPriceCents data = JNum 500 \<and> quantity data = JNum 3"
    then have "unitPriceCents d = JNum 500" "quantity d = JNum 3"
      using kept qd by simp_all
    then show "lineTotalCents r = JNum 1500"
      by (simp add: lt resolveQuantity_cases resolveUnitPrice_cases js_mul_exact)
  qed
  from run qr src total over ex show ?thesis by blast
qed

theorem resolveInput_lineTotal_witness:
  "(case fst (resolveInput Create
        (empty_data\<lparr>unitPriceCents := JNum 500, quantity := JNum 3, lineTotalCents := JNum 7\<rparr>)
        None (ctx_of (store_of []))) of
     Inl e \<Rightarrow> False
   | Inr data' \<Rightarrow> lineTotalCents data' = JNum 1500 \<and> quantity data' = JNum 3
        \<and> unitPriceCents data' = JNum 500)
   \<and> (case fst (resolveInput Update (empty_data\<lparr>quantity := JNum 5\<rparr>) (Some itemA)
        (ctx_of (store_of [itemA]))) of
     Inl e \<Rightarrow> False
   | Inr data' \<Rightarrow> lineTotalCents data' = JNum 2500 \<and> quantity data' = JNum 5
        \<and> unitPriceCents data' = JUndefined)"
proof -
  have 1: "\<bar>3 * 500\<bar> < (2::int) ^ 53" "\<bar>5 * 500\<bar> < (2::int) ^ 53"
    by simp_all
  show ?thesis
    using 1
      resolveInput_lineTotal [of Create
        "empty_data\<lparr>unitPriceCents := JNum 500, quantity := JNum 3, lineTotalCents := JNum 7\<rparr>"
        None "ctx_of (store_of [])" "JNum 7"]
      resolveInput_lineTotal [of Update "empty_data\<lparr>quantity := JNum 5\<rparr>" "Some itemA"
        "ctx_of (store_of [itemA])" JUndefined]
    by (auto simp: empty_data_def itemA_def js_mul_exact)
qed

subsection \<open>Snapshot population on create\<close>

text \<open>
  Claim C4. On a create that connects a Product by a non-empty id, with
  \<^verbatim>\<open>productNameSnapshot\<close> absent, null or empty and \<^verbatim>\<open>unitPriceCents\<close> absent, and the Product
  found by the lookup, the resolver sets \<^verbatim>\<open>productNameSnapshot\<close> to the Product's name and
  \<^verbatim>\<open>unitPriceCents\<close> to its \<^verbatim>\<open>priceCents\<close>.
\<close>

theorem resolveInput_populates_snapshot:
  assumes "product_rel data = Rel_input (Some pid)" and "pid \<noteq> []"
    and "productNameSnapshot data = JUndefined \<or> productNameSnapshot data = JNull
         \<or> productNameSnapshot data = JStr []"
    and "unitPriceCents data = JUndefined"
    and "fault ctx Product_findOne = None" and "products (db ctx) pid = Some p"
  shows "\<exists>data' ctx'. resolveInput Create data item ctx = (Inr data', ctx')
     \<and> productNameSnapshot data' = JStr (name p)
     \<and> unitPriceCents data' = JNum (priceCents p)
     \<and> lineTotalCents data' = JNum (js_mul (resolveQuantity data item) (priceCents p))
     \<and> (\<bar>resolveQuantity data item * priceCents p\<bar> < 2 ^ 53 \<longrightarrow>
          lineTotalCents data' = JNum (resolveQuantity data item * priceCents p))
     \<and> Log_fetched p \<in> set (console ctx')"
proof -
  have pid: "resolveProductId Create data item = Some pid"
    using assms(1,2) by (simp add: resolveProductId_def connect_id_def)
  have need: "needName data" "needPrice data"
    using assms(3,4) by (simp_all add: needName_def needPrice_def)
  have found: "db_Product_findOne pid c = Inr (Some p)"
    if "fault c = fault ctx" "db c = db ctx" for c
    using that assms(5,6) by (simp add: db_Product_findOne_def)
  define c where "c = console_log (Log_need (needName data) (needPrice data))
              (console_log (Log_resolveInput Create data item) ctx)"
  have c: "fault c = fault ctx" "db c = db ctx"
    by (simp_all add: c_def console_log_def)
  have "fetch_snapshot (Some pid) data c = (populate p data, console_log (Log_fetched p) c)"
    using need assms(2) by (simp add: fetch_snapshot_def found [OF c])
  then have f: "fetch_snapshot (resolveProductId Create data item) data c =
      (populate p data, console_log (Log_fetched p) c)"
    by (simp only: pid)
  have pop: "populate p data = data\<lparr>productNameSnapshot := JStr (name p), unitPriceCents := JNum (priceCents p)\<rparr>"
    using need by (simp add: populate_def)
  have "resolveInput Create data item ctx =
      (Inr ((populate p data)\<lparr>lineTotalCents :=
          JNum (js_mul (resolveQuantity (populate p data) item) (resolveUnitPrice (populate p data) item))\<rparr>),
       console_log (Log_fetched p) c)"
    by (rule resolveInput_fetch) (use f in \<open>simp only: c_def\<close>)
  moreover have "resolveUnitPrice (populate p data) item = priceCents p"
    by (simp add: pop resolveUnitPrice_def typeof_number_def)
  moreover have "resolveQuantity (populate p data) item = resolveQuantity data item"
    by (simp add: pop resolveQuantity_def)
  ultimately show ?thesis
    by (simp add: pop console_log_def js_mul_exact)
qed


theorem resolveInput_populates_snapshot_witness:
  "case fst (resolveInput Create (empty_data\<lparr>product_rel := Rel_input (Some ''p1'')\<rparr>) None
        (ctx_of (store_of []))) of
     Inl e \<Rightarrow> False
   | Inr data' \<Rightarrow> productNameSnapshot data' = JStr ''Widget'' \<and> unitPriceCents data' = JNum 1999"
proof -
  let ?d = "empty_data\<lparr>product_rel := Rel_input (Some ''p1'')\<rparr>"
  let ?c = "ctx_of (store_of [])"
  have 1: "product_rel ?d = Rel_input (Some ''p1'')" by simp
  have 2: "''p1'' \<noteq> []" by simp
  have 3: "productNameSnapshot ?d = JUndefined \<or> productNameSnapshot ?d = JNull
         \<or> productNameSnapshot ?d = JStr []"
    by (simp add: empty_data_def)
  have 4: "unitPriceCents ?d = JUndefined" by (simp add: empty_data_def)
  have 5: "fault ?c Product_findOne = None" by (simp add: ctx_of_def)
  have 6: "products (db ?c) ''p1'' = Some widget" by (simp add: ctx_of_def store_of_def)
  show ?thesis
    using resolveInput_populates_snapshot [OF 1 2 3 4 5 6, of None]
    by (auto simp: widget_def)
qed

subsection \<open>The order total\<close>

text \<open>
  Claim C3. With the arguments the framework passes, let the affected row be the row before
  the write on delete and the row after it on create and update. When that row names its
  Order, the two store calls succeed and the Order exists, the recalculator returns
  normally and sets the Order's \<^verbatim>\<open>totalCents\<close> to the sum of \<^verbatim>\<open>lineTotalCents\<close> over the items
  that belong to the Order in the store it runs on (the state after the commit), a null
  \<^verbatim>\<open>lineTotalCents\<close> counting as zero. The sum is exact as long as the magnitudes add up to
  less than \<open>2^53\<close>. Nothing else in the store changes.
\<close>

theorem afterOperation_total:
  assumes "after_args_ok operation item originalItem"
    and "(case operation of
            Delete \<Rightarrow> Option.bind originalItem orderId
          | _ \<Rightarrow> Option.bind item orderId) = Some oid"
    and "oid \<noteq> []"
    and "fault ctx OrderItem_findMany = None" and "fault ctx Order_updateOne = None"
    and "orders (db ctx) oid = Some row"
    and "(\<Sum>oi\<leftarrow>filter (\<lambda>oi. orderId oi = Some oid) (orderItems (db ctx)).
            \<bar>case item_lineTotalCents oi of None \<Rightarrow> 0 | Some n \<Rightarrow> n\<bar>) < 2 ^ 53"
  shows "fst (afterOperation operation item originalItem ctx) = Inr ()
     \<and> orders (db (snd (afterOperation operation item originalItem ctx))) oid =
         Some (row\<lparr>totalCents :=
           (\<Sum>oi\<leftarrow>filter (\<lambda>oi. orderId oi = Some oid) (orderItems (db ctx)).
               case item_lineTotalCents oi of None \<Rightarrow> 0 | Some n \<Rightarrow> n)\<rparr>)
     \<and> (\<forall>k. k \<noteq> oid \<longrightarrow>
           orders (db (snd (afterOperation operation item originalItem ctx))) k = orders (db ctx) k)
     \<and> orderItems (db (snd (afterOperation operation item originalItem ctx))) = orderItems (db ctx)
     \<and> products (db (snd (afterOperation operation item originalItem ctx))) = products (db ctx)"
proof -
  let ?ois = "filter (\<lambda>oi. orderId oi = Some oid) (orderItems (db ctx))"
  have eff: "Option.bind (effectiveItem item originalItem) orderId = Some oid"
    using after_args_effectiveItem [OF assms(1)] assms(2) by simp
  have "afterOperation operation item originalItem ctx = recalcOrderTotal oid ctx"
    using eff assms(3) by (rule afterOperation_resolved)
  also have "\<dots> = (Inr (), ctx\<lparr>db := (db ctx)\<lparr>orders :=
        (orders (db ctx))(oid \<mapsto> row\<lparr>totalCents := sum_lineTotals ?ois\<rparr>)\<rparr>\<rparr>)"
    by (simp add: recalcOrderTotal_def findMany_ok [OF assms(4)] updateOne_ok [OF assms(5,6)])
  finally show ?thesis
    by (simp add: sum_lineTotals_sum_list [OF assms(7)])
qed

theorem afterOperation_total_witness:
  "orders (db (snd (afterOperation Create (Some itemB) None (ctx_of (store_of [itemA, itemB]))))) ''O''
     = Some (orderO\<lparr>totalCents := 4498\<rparr>)
   \<and> orders (db (snd (afterOperation Delete None (Some itemB) (ctx_of (store_of [itemA]))))) ''O''
     = Some (orderO\<lparr>totalCents := 1500\<rparr>)
   \<and> orders (db (snd (afterOperation Update (Some (itemA\<lparr>item_lineTotalCents := None\<rparr>)) (Some itemA)
        (ctx_of (store_of [itemA\<lparr>item_lineTotalCents := None\<rparr>, itemB]))))) ''O''
     = Some (orderO\<lparr>totalCents := 2998\<rparr>)"
proof -
  let ?n = "itemA\<lparr>item_lineTotalCents := None\<rparr>"
  have create: "after_args_ok Create (Some itemB) None"
    and delete: "after_args_ok Delete None (Some itemB)"
    and update: "after_args_ok Update (Some ?n) (Some itemA)"
    by (simp_all add: after_args_ok_def)
  have oid: "(case Create of Delete \<Rightarrow> Option.bind None orderId | _ \<Rightarrow> Option.bind (Some itemB) orderId)
        = Some ''O''"
    "(case Delete of Delete \<Rightarrow> Option.bind (Some itemB) orderId | _ \<Rightarrow> Option.bind None orderId)
        = Some ''O''"
    "(case Update of Delete \<Rightarrow> Option.bind (Some itemA) orderId | _ \<Rightarrow> Option.bind (Some ?n) orderId)
        = Some ''O''"
    by (simp_all add: itemA_def itemB_def)
  have ne: "''O'' \<noteq> []" by simp
  have ok: "fault (ctx_of s) OrderItem_findMany = None" "fault (ctx_of s) Order_updateOne = None"
    "orders (db (ctx_of (store_of ois))) ''O'' = Some orderO" for s ois
    by (simp_all add: ctx_of_def store_of_def)
  have small:
    "(\<Sum>oi\<leftarrow>filter (\<lambda>oi. orderId oi = Some ''O'') (orderItems (db (ctx_of (store_of [itemA, itemB])))).
        \<bar>case item_lineTotalCents oi of None \<Rightarrow> 0 | Some n \<Rightarrow> n\<bar>) < 2 ^ 53"
    "(\<Sum>oi\<leftarrow>filter (\<lambda>oi. orderId oi = Some ''O'') (orderItems (db (ctx_of (store_of [itemA])))).
        \<bar>case item_lineTotalCents oi of None \<Rightarrow> 0 | Some n \<Rightarrow> n\<bar>) < 2 ^ 53"
    "(\<Sum>oi\<leftarrow>filter (\<lambda>oi. orderId oi = Some ''O'') (orderItems (db (ctx_of (store_of [?n, itemB])))).
        \<bar>case item_lineTotalCents oi of None \<Rightarrow> 0 | Some n \<Rightarrow> n\<bar>) < 2 ^ 53"
    by (simp_all add: ctx_of_def store_of_def itemA_def itemB_def)
  show ?thesis
    using afterOperation_total [OF create oid(1) ne ok(1) ok(2) ok(3) small(1)]
      afterOperation_total [OF delete oid(2) ne ok(1) ok(2) ok(3) small(2)]
      afterOperation_total [OF update oid(3) ne ok(1) ok(2) ok(3) small(3)]
    by (simp add: ctx_of_def store_of_def itemA_def itemB_def)
qed

subsection \<open>Updates and the stored snapshot\<close>

text \<open>
  Claim C1 says that an update which supplies no snapshot fields leaves the stored
  \<^verbatim>\<open>productNameSnapshot\<close> and \<^verbatim>\<open>unitPriceCents\<close> as they are. The resolver tests the write,
  not the stored item (lines 330-332), and on update falls back to the stored product
  reference (line 320): an update of the quantity alone, on an item bought as Widget at
  1999 whose Product is now Widget Pro at 2500, returns the current name and price among the
  fields to persist, and a line total computed from the new price.
\<close>

theorem resolveInput_update_overwrites_snapshot:
  "fst (resolveInput Update (empty_data\<lparr>quantity := JNum 2\<rparr>) (Some itemW) (ctx_of repriced_store))
     = Inr (empty_data\<lparr>quantity := JNum 2, productNameSnapshot := JStr ''Widget Pro'',
              unitPriceCents := JNum 2500, lineTotalCents := JNum 5000\<rparr>)"
  by (simp add: resolveInput_def fetch_snapshot_def resolveProductId_def needName_def
      needPrice_def populate_def resolveQuantity_def resolveUnitPrice_def typeof_number_def
      connect_id_def truthy_rel_def db_Product_findOne_def console_log_def
      empty_data_def itemW_def ctx_of_def repriced_store_def Let_def js_mul_exact)

subsection \<open>The missing-field tests\<close>

text \<open>
  Claim C10. The name counts as missing when it is undefined, null or the empty string; the
  price only when it is undefined. So with a resolvable product that the lookup finds, a
  write with \<^verbatim>\<open>unitPriceCents = null\<close> keeps the null and computes the line total from the
  stored unit price (or 0), while a null or empty \<^verbatim>\<open>productNameSnapshot\<close> is replaced by the
  Product's name.
\<close>

theorem need_tests_asymmetric:
  "needName data = (productNameSnapshot data \<in> {JUndefined, JNull, JStr []})
   \<and> needPrice data = (unitPriceCents data = JUndefined)
   \<and> (resolveProductId operation data item = Some pid \<and> db_Product_findOne pid ctx = Inr (Some p) \<longrightarrow>
        (\<exists>data' ctx'. resolveInput operation data item ctx = (Inr data', ctx')
           \<and> (unitPriceCents data = JNull \<longrightarrow>
                 unitPriceCents data' = JNull
                 \<and> lineTotalCents data' = JNum (js_mul (resolveQuantity data item)
                      (case Option.bind item item_unitPriceCents of Some u \<Rightarrow> u | None \<Rightarrow> 0)))
           \<and> (productNameSnapshot data = JNull \<or> productNameSnapshot data = JStr [] \<longrightarrow>
                 productNameSnapshot data' = JStr (name p))))"
proof -
  have tests: "needName data = (productNameSnapshot data \<in> {JUndefined, JNull, JStr []})"
    "needPrice data = (unitPriceCents data = JUndefined)"
    by (auto simp: needName_def needPrice_def)
  have run: "\<exists>data' ctx'. resolveInput operation data item ctx = (Inr data', ctx')
           \<and> (unitPriceCents data = JNull \<longrightarrow>
                 unitPriceCents data' = JNull
                 \<and> lineTotalCents data' = JNum (js_mul (resolveQuantity data item)
                      (case Option.bind item item_unitPriceCents of Some u \<Rightarrow> u | None \<Rightarrow> 0)))
           \<and> (productNameSnapshot data = JNull \<or> productNameSnapshot data = JStr [] \<longrightarrow>
                 productNameSnapshot data' = JStr (name p))"
    if pid: "resolveProductId operation data item = Some pid"
      and found: "db_Product_findOne pid ctx = Inr (Some p)"
  proof -
    define c where "c = console_log (Log_need (needName data) (needPrice data))
              (console_log (Log_resolveInput operation data item) ctx)"
    define d where "d = fst (fetch_snapshot (Some pid) data c)"
    have d: "d = (if needName data \<or> needPrice data then populate p data else data)"
      using found resolveProductId_truthy [OF pid]
      by (simp add: d_def c_def fetch_snapshot_fst)
    have f: "fetch_snapshot (resolveProductId operation data item) data c =
        (d, snd (fetch_snapshot (Some pid) data c))"
      by (simp add: pid d_def)
    have r: "resolveInput operation data item ctx =
        (Inr (d\<lparr>lineTotalCents := JNum (js_mul (resolveQuantity d item) (resolveUnitPrice d item))\<rparr>),
         snd (fetch_snapshot (Some pid) data c))"
      by (rule resolveInput_fetch) (use f in \<open>simp only: c_def\<close>)
    have q: "resolveQuantity d item = resolveQuantity data item"
      by (simp add: d resolveQuantity_def)
    have price: "unitPriceCents data = JNull \<longrightarrow> unitPriceCents d = JNull
        \<and> resolveUnitPrice d item = (case Option.bind item item_unitPriceCents of Some u \<Rightarrow> u | None \<Rightarrow> 0)"
      by (auto simp: d populate_def needPrice_def resolveUnitPrice_def typeof_number_def Let_def)
    have nm: "productNameSnapshot data = JNull \<or> productNameSnapshot data = JStr [] \<longrightarrow>
                 productNameSnapshot d = JStr (name p)"
      by (auto simp: d populate_def needName_def Let_def)
    from r q price nm show ?thesis
      by auto
  qed
  from tests run show ?thesis by blast
qed

theorem need_tests_asymmetric_witness:
  "case fst (resolveInput Update
        (empty_data\<lparr>productNameSnapshot := JNull, unitPriceCents := JNull\<rparr>)
        (Some itemW) (ctx_of repriced_store)) of
     Inl e \<Rightarrow> False
   | Inr data' \<Rightarrow> unitPriceCents data' = JNull \<and> lineTotalCents data' = JNum 1999
        \<and> productNameSnapshot data' = JStr ''Widget Pro''"
proof -
  let ?d = "empty_data\<lparr>productNameSnapshot := JNull, unitPriceCents := JNull\<rparr>"
  let ?c = "ctx_of repriced_store"
  have 1: "resolveProductId Update ?d (Some itemW) = Some ''p1''
      \<and> db_Product_findOne ''p1'' ?c = Inr (Some \<lparr>name = ''Widget Pro'', priceCents = 2500\<rparr>)"
    by (simp add: resolveProductId_def connect_id_def truthy_rel_def db_Product_findOne_def example_defs)
  have 2: "resolveQuantity ?d (Some itemW) = 1"
    by (simp add: resolveQuantity_def typeof_number_def example_defs)
  show ?thesis
    using need_tests_asymmetric [of ?d Update "Some itemW" "''p1''" ?c "\<lparr>name = ''Widget Pro'', priceCents = 2500\<rparr>"] 1 2
    by (auto simp: itemW_def js_mul_exact)
qed

subsection \<open>No resolvable unit price\<close>

text \<open>
  Claim C9. On a create (no stored item) whose \<^verbatim>\<open>unitPriceCents\<close> is not a number and for
  which no Product supplies a price (no product id connected, or a \<^verbatim>\<open>unitPriceCents\<close> that is
  not absent, or a lookup that throws or finds nothing), the resolver returns normally with
  \<^verbatim>\<open>unitPriceCents\<close> as supplied and \<^verbatim>\<open>lineTotalCents = 0\<close>, whatever the quantity.
\<close>

theorem resolveInput_no_price_zero:
  assumes "\<not> typeof_number (unitPriceCents data)"
    and "\<not> truthy_id (connect_id (product_rel data))
         \<or> unitPriceCents data \<noteq> JUndefined
         \<or> (\<exists>e. db_Product_findOne (the (connect_id (product_rel data))) ctx = Inl e)
         \<or> db_Product_findOne (the (connect_id (product_rel data))) ctx = Inr None"
  shows "\<exists>data' ctx'. resolveInput Create data None ctx = (Inr data', ctx')
     \<and> unitPriceCents data' = unitPriceCents data
     \<and> lineTotalCents data' = JNum 0"
proof -
  define c where "c = console_log (Log_need (needName data) (needPrice data))
              (console_log (Log_resolveInput Create data None) ctx)"
  define pid where "pid = resolveProductId Create data None"
  obtain d c' where f: "fetch_snapshot pid data c = (d, c')"
    by (cases "fetch_snapshot pid data c")
  have pid: "pid = (if truthy_id (connect_id (product_rel data)) then connect_id (product_rel data) else None)"
    by (simp add: pid_def resolveProductId_def)
  have "d = fst (fetch_snapshot pid data c)"
    by (simp add: f)
  then have d: "unitPriceCents d = unitPriceCents data"
    using assms(2)
    by (auto simp: fetch_snapshot_fst pid c_def populate_def needPrice_def Let_def
        split: sum.splits option.splits if_splits)
  have "resolveInput Create data None ctx =
      (Inr (d\<lparr>lineTotalCents := JNum (js_mul (resolveQuantity d None) (resolveUnitPrice d None))\<rparr>), c')"
    by (rule resolveInput_fetch) (use f in \<open>simp only: c_def pid_def\<close>)
  moreover have "resolveUnitPrice d None = 0"
    using assms(1) by (simp add: resolveUnitPrice_def d)
  ultimately show ?thesis
    by (simp add: d)
qed


theorem resolveInput_no_price_zero_witness:
  "case fst (resolveInput Create (empty_data\<lparr>quantity := JNum 7\<rparr>) None (ctx_of (store_of []))) of
     Inl e \<Rightarrow> False
   | Inr data' \<Rightarrow> lineTotalCents data' = JNum 0 \<and> unitPriceCents data' = JUndefined"
proof -
  let ?d = "empty_data\<lparr>quantity := JNum 7\<rparr>"
  let ?c = "ctx_of (store_of [])"
  have 1: "\<not> typeof_number (unitPriceCents ?d)"
    by (simp add: typeof_number_def empty_data_def)
  have 2: "\<not> truthy_id (connect_id (product_rel ?d))
         \<or> unitPriceCents ?d \<noteq> JUndefined
         \<or> (\<exists>e. db_Product_findOne (the (connect_id (product_rel ?d))) ?c = Inl e)
         \<or> db_Product_findOne (the (connect_id (product_rel ?d))) ?c = Inr None"
    by (simp add: connect_id_def empty_data_def)
  show ?thesis
    using resolveInput_no_price_zero [OF 1 2] by (auto simp: empty_data_def)
qed

subsection \<open>Which order is recalculated\<close>

text \<open>
  Claim C6. With the arguments the framework passes, the recalculator takes the order id
  from \<^verbatim>\<open>originalItem\<close>, the row before the write, on delete, and from \<^verbatim>\<open>item\<close>, the row after
  the write, on create and update, and recalculates that Order. When the affected item
  gives no order id (absent, null or empty) the hook returns the context unchanged: no
  Order changes and nothing is logged.
\<close>

theorem afterOperation_order_id:
  "(after_args_ok operation item originalItem \<longrightarrow>
      afterOperation operation item originalItem ctx =
        (let oid = (case operation of
                      Delete \<Rightarrow> Option.bind originalItem orderId
                    | _ \<Rightarrow> Option.bind item orderId)
         in if truthy_id oid then recalcOrderTotal (the oid) ctx else (Inr (), ctx)))
   \<and> (\<not> truthy_id (Option.bind (effectiveItem item originalItem) orderId) \<longrightarrow>
        afterOperation operation item originalItem ctx = (Inr (), ctx))"
  by (cases operation)
     (auto simp: afterOperation_def effectiveItem_def after_args_ok_def Let_def)

theorem afterOperation_order_id_witness:
  "orders (db (snd (afterOperation Delete None (Some itemA) (ctx_of (store_of [itemB]))))) ''O''
     = Some (orderO\<lparr>totalCents := 2998\<rparr>)
   \<and> afterOperation Create (Some (itemA\<lparr>orderId := None\<rparr>)) None (ctx_of (store_of [itemB]))
     = (Inr (), ctx_of (store_of [itemB]))"
proof -
  have 1: "after_args_ok Delete None (Some itemA)"
    by (simp add: after_args_ok_def)
  have 2: "\<not> truthy_id (Option.bind (effectiveItem (Some (itemA\<lparr>orderId := None\<rparr>)) None) orderId)"
    by (simp add: effectiveItem_def)
  show ?thesis
    using 1 2 afterOperation_order_id [of Delete None "Some itemA" "ctx_of (store_of [itemB])"]
      afterOperation_order_id [of Create "Some (itemA\<lparr>orderId := None\<rparr>)" None
        "ctx_of (store_of [itemB])"]
    by (simp add: recalcOrderTotal_def db_OrderItem_findMany_def db_Order_updateOne_def
        sum_lineTotals_def or_zero_def js_add_exact example_defs)
qed

subsection \<open>Failures of the store\<close>

text \<open>
  Claim C5. An error thrown by the Product lookup does not reject \<^verbatim>\<open>resolveInput\<close>: it
  returns the write with both snapshot fields as supplied, the store untouched and, when the
  lookup was attempted, the warning logged last. An error thrown by the item listing or by
  the Order update does not reject \<^verbatim>\<open>afterOperation\<close>: it returns normally, and the context is
  the one it started from plus the logged error, so no Order total changes and no
  OrderItem is rolled back.
\<close>

theorem hooks_soft_failure:
  "(resolveProductId operation data item = Some pid \<and> db_Product_findOne pid ctx = Inl e \<longrightarrow>
      (\<exists>data' ctx'. resolveInput operation data item ctx = (Inr data', ctx')
         \<and> productNameSnapshot data' = productNameSnapshot data
         \<and> unitPriceCents data' = unitPriceCents data
         \<and> db ctx' = db ctx
         \<and> (needName data \<or> needPrice data \<longrightarrow> last (console ctx') = Warn_fetch_failed e)))
   \<and> (Option.bind (effectiveItem item' originalItem) orderId = Some oid \<and> oid \<noteq> []
        \<and> (db_OrderItem_findMany oid ctx = Inl e
            \<or> (\<exists>ois. db_OrderItem_findMany oid ctx = Inr ois
                  \<and> db_Order_updateOne oid (sum_lineTotals ois) ctx = Inl e)) \<longrightarrow>
        afterOperation operation' item' originalItem ctx
          = (Inr (), console_log (Error_recalc_failed e) ctx)
        \<and> db (snd (afterOperation operation' item' originalItem ctx)) = db ctx)"
proof -
  have resolver: "\<exists>data' ctx'. resolveInput operation data item ctx = (Inr data', ctx')
         \<and> productNameSnapshot data' = productNameSnapshot data
         \<and> unitPriceCents data' = unitPriceCents data
         \<and> db ctx' = db ctx
         \<and> (needName data \<or> needPrice data \<longrightarrow> last (console ctx') = Warn_fetch_failed e)"
    if pid: "resolveProductId operation data item = Some pid"
      and fail: "db_Product_findOne pid ctx = Inl e"
  proof -
    define c where "c = console_log (Log_need (needName data) (needPrice data))
              (console_log (Log_resolveInput operation data item) ctx)"
    have "db_Product_findOne pid c = Inl e"
      using fail by (simp add: c_def)
    then have f: "fetch_snapshot (resolveProductId operation data item) data c =
        (data, if needName data \<or> needPrice data then console_log (Warn_fetch_failed e) c else c)"
      using resolveProductId_truthy [OF pid] by (simp add: pid fetch_snapshot_def)
    have "resolveInput operation data item ctx =
        (Inr (data\<lparr>lineTotalCents := JNum (js_mul (resolveQuantity data item) (resolveUnitPrice data item))\<rparr>),
         if needName data \<or> needPrice data then console_log (Warn_fetch_failed e) c else c)"
      by (rule resolveInput_fetch) (use f in \<open>simp only: c_def\<close>)
    then show ?thesis
      by (simp add: c_def console_log_def)
  qed
  have recalc: "afterOperation operation' item' originalItem ctx
          = (Inr (), console_log (Error_recalc_failed e) ctx)
        \<and> db (snd (afterOperation operation' item' originalItem ctx)) = db ctx"
    if oid: "Option.bind (effectiveItem item' originalItem) orderId = Some oid" "oid \<noteq> []"
      and fail: "db_OrderItem_findMany oid ctx = Inl e
            \<or> (\<exists>ois. db_OrderItem_findMany oid ctx = Inr ois
                  \<and> db_Order_updateOne oid (sum_lineTotals ois) ctx = Inl e)"
  proof -
    have "afterOperation operation' item' originalItem ctx = recalcOrderTotal oid ctx"
      using oid by (rule afterOperation_resolved)
    moreover have "recalcOrderTotal oid ctx = (Inr (), console_log (Error_recalc_failed e) ctx)"
      using fail by (auto simp: recalcOrderTotal_def)
    ultimately show ?thesis
      by (simp add: console_log_def)
  qed
  from resolver recalc show ?thesis by blast
qed

theorem hooks_soft_failure_witness:
  "fst (resolveInput Create (empty_data\<lparr>product_rel := Rel_input (Some ''p1''), quantity := JNum 2\<rparr>)
          None (failing Product_findOne StoreUnavailable (ctx_of (store_of []))))
     = Inr (empty_data\<lparr>product_rel := Rel_input (Some ''p1''), quantity := JNum 2,
              lineTotalCents := JNum 0\<rparr>)
   \<and> afterOperation Update (Some itemA) (Some itemA)
        (failing OrderItem_findMany StoreUnavailable (ctx_of (store_of [itemA, itemB])))
     = (Inr (), console_log (Error_recalc_failed StoreUnavailable)
          (failing OrderItem_findMany StoreUnavailable (ctx_of (store_of [itemA, itemB]))))
   \<and> afterOperation Create (Some (itemA\<lparr>orderId := Some ''gone''\<rparr>)) None
        (ctx_of (store_of [itemA\<lparr>orderId := Some ''gone''\<rparr>]))
     = (Inr (), console_log (Error_recalc_failed NotFound)
          (ctx_of (store_of [itemA\<lparr>orderId := Some ''gone''\<rparr>])))"
proof -
  let ?d = "empty_data\<lparr>product_rel := Rel_input (Some ''p1''), quantity := JNum 2\<rparr>"
  let ?c1 = "failing Product_findOne StoreUnavailable (ctx_of (store_of []))"
  let ?c2 = "failing OrderItem_findMany StoreUnavailable (ctx_of (store_of [itemA, itemB]))"
  let ?g = "itemA\<lparr>orderId := Some ''gone''\<rparr>"
  let ?c3 = "ctx_of (store_of [?g])"
  have 1: "resolveProductId Create ?d None = Some ''p1'' \<and> db_Product_findOne ''p1'' ?c1 = Inl StoreUnavailable"
    by (simp add: resolveProductId_def connect_id_def db_Product_findOne_def example_defs)
  have 2: "Option.bind (effectiveItem (Some itemA) (Some itemA)) orderId = Some ''O'' \<and> ''O'' \<noteq> []
      \<and> (db_OrderItem_findMany ''O'' ?c2 = Inl StoreUnavailable
            \<or> (\<exists>ois. db_OrderItem_findMany ''O'' ?c2 = Inr ois
                  \<and> db_Order_updateOne ''O'' (sum_lineTotals ois) ?c2 = Inl StoreUnavailable))"
    by (simp add: effectiveItem_def db_OrderItem_findMany_def example_defs)
  have 3: "Option.bind (effectiveItem (Some ?g) None) orderId = Some ''gone'' \<and> ''gone'' \<noteq> []
      \<and> (db_OrderItem_findMany ''gone'' ?c3 = Inl NotFound
            \<or> (\<exists>ois. db_OrderItem_findMany ''gone'' ?c3 = Inr ois
                  \<and> db_Order_updateOne ''gone'' (sum_lineTotals ois) ?c3 = Inl NotFound))"
    by (simp add: effectiveItem_def db_OrderItem_findMany_def db_Order_updateOne_def example_defs)
  show ?thesis
    using hooks_soft_failure [of Create ?d None "''p1''" ?c1 StoreUnavailable None None "[]"] 1
      hooks_soft_failure [of Create empty_data None "[]" ?c2 StoreUnavailable "Some itemA" "Some itemA" "''O''" Update] 2
      hooks_soft_failure [of Create empty_data None "[]" ?c3 NotFound "Some ?g" None "''gone''" Create] 3
    by (auto simp: resolveInput_def fetch_snapshot_def resolveQuantity_def resolveUnitPrice_def
        typeof_number_def Let_def empty_data_def)
qed

subsection \<open>Validation of the quantity\<close>

text \<open>
  Claim C8. In the pre-commit phase a create with \<^verbatim>\<open>quantity = 0\<close> is rejected with
  \<^verbatim>\<open>ValidationError\<close>; a create with \<^verbatim>\<open>quantity = 1\<close>, a non-empty name and a non-negative
  unit price is accepted. Whatever passes carries a quantity of at least 1 (and on create
  it does carry a quantity).
\<close>

theorem quantity_validation:
  "(quantity data = JNum 0 \<longrightarrow> fst (preCommit Create data None ctx) = Inl ValidationError)
   \<and> (quantity data = JNum 1 \<and> (\<exists>s. productNameSnapshot data = JStr s \<and> s \<noteq> [])
        \<and> (\<exists>u. unitPriceCents data = JNum u \<and> 0 \<le> u) \<longrightarrow>
        (\<exists>data'. fst (preCommit Create data None ctx) = Inr data' \<and> quantity data' = JNum 1))
   \<and> (\<forall>data'. fst (preCommit operation data item ctx) = Inr data' \<longrightarrow>
        (operation = Create \<longrightarrow> (\<exists>n. quantity data' = JNum n))
        \<and> (\<forall>n. quantity data' = JNum n \<longrightarrow> 1 \<le> n))"
proof -
  have zero: "fst (preCommit Create data None ctx) = Inl ValidationError" if "quantity data = JNum 0"
    using that
    by (simp add: preCommit_eq validateInput_def validate_integer_def fetch_snapshot_quantity)
  have one: "\<exists>data'. fst (preCommit Create data None ctx) = Inr data' \<and> quantity data' = JNum 1"
    if q: "quantity data = JNum 1" and n: "productNameSnapshot data = JStr s" "s \<noteq> []"
      and u: "unitPriceCents data = JNum u" "0 \<le> u" for s u
  proof -
    have "fetch_snapshot pid data ctx = (data, ctx)" for pid
      using n u by (simp add: fetch_snapshot_def needName_def needPrice_def)
    then show ?thesis
      using q n u
      by (simp add: preCommit_eq validateInput_def validate_integer_def validate_text_def
          resolveQuantity_def resolveUnitPrice_def typeof_number_def js_mul_nonneg)
  qed
  have kept: "(operation = Create \<longrightarrow> (\<exists>n. quantity data' = JNum n))
        \<and> (\<forall>n. quantity data' = JNum n \<longrightarrow> 1 \<le> n)"
    if "fst (preCommit operation data item ctx) = Inr data'" for data'
  proof -
    from that have "quantity data' = quantity data"
      and "validate_integer True 1 operation (quantity data)"
      by (auto simp: preCommit_eq fetch_snapshot_quantity dest!: validateInput_Inr)
    then show ?thesis
      by (auto simp: validate_integer_def split: jsval.splits)
  qed
  from zero one kept show ?thesis by blast
qed

theorem quantity_validation_witness:
  "fst (preCommit Create
          (empty_data\<lparr>productNameSnapshot := JStr ''Widget'', unitPriceCents := JNum 1999,
             quantity := JNum 0\<rparr>) None (ctx_of (store_of [])))
     = Inl ValidationError
   \<and> fst (preCommit Create
          (empty_data\<lparr>productNameSnapshot := JStr ''Widget'', unitPriceCents := JNum 1999,
             quantity := JNum 1\<rparr>) None (ctx_of (store_of [])))
     = Inr (empty_data\<lparr>productNameSnapshot := JStr ''Widget'', unitPriceCents := JNum 1999,
             quantity := JNum 1, lineTotalCents := JNum 1999\<rparr>)"
  using quantity_validation [of "empty_data\<lparr>productNameSnapshot := JStr ''Widget'', unitPriceCents := JNum 1999,
             quantity := JNum 0\<rparr>" "ctx_of (store_of [])" Create None]
    quantity_validation [of "empty_data\<lparr>productNameSnapshot := JStr ''Widget'', unitPriceCents := JNum 1999,
             quantity := JNum 1\<rparr>" "ctx_of (store_of [])" Create None]
  by (simp add: preCommit_eq fetch_snapshot_fst needName_def needPrice_def validateInput_def
      validate_integer_def validate_text_def resolveQuantity_def resolveUnitPrice_def
      typeof_number_def resolveProductId_def connect_id_def empty_data_def js_mul_exact)

end
